theory Spec2Isabelle
  imports Main "HOL-Library.Word"
begin

section \<open>The fake NVML library (fake\_nvml.c)\<close>

text \<open>
  A shallow embedding of the userspace shim. The two globals of the C file
  (\<open>g_initialized\<close>, \<open>g_fake_gpus\<close>), the caller's memory reached through the
  output pointers, and the standard error stream written by the \<open>LOG\<close> macro make
  up the state. A call returns either a fault (the C code dereferenced a pointer that does
  not point to an object of the expected type: undefined behaviour, in practice a crash)
  or its result code together with the new state.
\<close>

subsection \<open>Types of nvml.h\<close>

type_synonym nvmlReturn_t = int

definition NVML_SUCCESS :: nvmlReturn_t where "NVML_SUCCESS = 0"
definition NVML_ERROR_UNINITIALIZED :: nvmlReturn_t where "NVML_ERROR_UNINITIALIZED = 1"
definition NVML_ERROR_INVALID_ARGUMENT :: nvmlReturn_t where "NVML_ERROR_INVALID_ARGUMENT = 2"
definition NVML_ERROR_NOT_SUPPORTED :: nvmlReturn_t where "NVML_ERROR_NOT_SUPPORTED = 3"
definition NVML_ERROR_NO_PERMISSION :: nvmlReturn_t where "NVML_ERROR_NO_PERMISSION = 4"
definition NVML_ERROR_ALREADY_INITIALIZED :: nvmlReturn_t where "NVML_ERROR_ALREADY_INITIALIZED = 5"
definition NVML_ERROR_NOT_FOUND :: nvmlReturn_t where "NVML_ERROR_NOT_FOUND = 6"
definition NVML_ERROR_INSUFFICIENT_SIZE :: nvmlReturn_t where "NVML_ERROR_INSUFFICIENT_SIZE = 7"
definition NVML_ERROR_INSUFFICIENT_POWER :: nvmlReturn_t where "NVML_ERROR_INSUFFICIENT_POWER = 8"
definition NVML_ERROR_DRIVER_NOT_LOADED :: nvmlReturn_t where "NVML_ERROR_DRIVER_NOT_LOADED = 9"
definition NVML_ERROR_TIMEOUT :: nvmlReturn_t where "NVML_ERROR_TIMEOUT = 10"
definition NVML_ERROR_FUNCTION_NOT_FOUND :: nvmlReturn_t where "NVML_ERROR_FUNCTION_NOT_FOUND = 13"
definition NVML_ERROR_UNKNOWN :: nvmlReturn_t where "NVML_ERROR_UNKNOWN = 999"

text \<open>The two other enumerations are stored into \<open>unsigned int\<close>-sized cells.\<close>

definition NVML_BRAND_UNKNOWN :: "32 word" where "NVML_BRAND_UNKNOWN = 0"
definition NVML_BRAND_TESLA :: "32 word" where "NVML_BRAND_TESLA = 2"
definition NVML_FEATURE_DISABLED :: "32 word" where "NVML_FEATURE_DISABLED = 0"
definition NVML_FEATURE_ENABLED :: "32 word" where "NVML_FEATURE_ENABLED = 1"

definition NVML_DEVICE_NAME_BUFFER_SIZE :: nat where "NVML_DEVICE_NAME_BUFFER_SIZE = 64"
definition NVML_DEVICE_UUID_BUFFER_SIZE :: nat where "NVML_DEVICE_UUID_BUFFER_SIZE = 80"
definition NVML_SYSTEM_DRIVER_VERSION_BUFFER_SIZE :: nat where
  "NVML_SYSTEM_DRIVER_VERSION_BUFFER_SIZE = 80"
definition NVML_DEVICE_PCI_BUS_ID_BUFFER_SIZE :: nat where
  "NVML_DEVICE_PCI_BUS_ID_BUFFER_SIZE = 32"

abbreviation NUL :: char where "NUL \<equiv> CHR 0x00"

text \<open>
  A pointer is null, the address of an element of the global array
  (\<open>&g_fake_gpus[i]\<close>), or the address of an object owned by the caller.
  \<open>nvmlDevice_t\<close> is a pointer type, so a device handle is a pointer as well.
\<close>

datatype ptr = NULL | GpuSlot nat | Cell nat

type_synonym nvmlDevice_t = ptr

record nvmlPciInfo_t =
  busId :: "char list"
  domain :: "32 word"
  bus :: "32 word"
  device :: "32 word"
  pciDeviceId :: "32 word"
  pciSubSystemId :: "32 word"

subsection \<open>The fake GPU state\<close>

definition FAKE_GPU_COUNT :: nat where "FAKE_GPU_COUNT = 4"
definition FAKE_GPU_NAME :: string where "FAKE_GPU_NAME = ''NVIDIA Tesla T4''"
definition FAKE_DRIVER_VERSION :: string where "FAKE_DRIVER_VERSION = ''535.104.05''"
definition FAKE_CUDA_VERSION :: int where "FAKE_CUDA_VERSION = 12020"

record fakeGpu_t =
  index :: int
  name :: "char list"
  uuid :: "char list"
  pci :: nvmlPciInfo_t
  handle :: nvmlDevice_t

subsection \<open>Memory, environment and the standard error stream\<close>

text \<open>The objects a caller can own: what the output pointers of the API point to.\<close>

datatype val =
    IntV int
  | UIntV "32 word"
  | CharsV "char list"
  | PciV nvmlPciInfo_t
  | DevV nvmlDevice_t

fun same_kind :: "val \<Rightarrow> val \<Rightarrow> bool" where
  "same_kind (IntV _) (IntV _) = True"
| "same_kind (UIntV _) (UIntV _) = True"
| "same_kind (CharsV _) (CharsV _) = True"
| "same_kind (PciV _) (PciV _) = True"
| "same_kind (DevV _) (DevV _) = True"
| "same_kind _ _ = False"

text \<open>
  What the process sees of its surroundings when \<open>LOG\<close> runs: the environment
  variables (\<open>getenv\<close>), the clock (\<open>time(NULL)\<close>) and \<open>getpid()\<close>.
\<close>

record env =
  environ :: "string \<rightharpoonup> string"
  clock :: int
  process_id :: int

text \<open>
  One line of the trace: the time (left unformatted), the process id twice, the
  function name and the message.
\<close>

type_synonym trace_line = "int \<times> int \<times> int \<times> string \<times> string"

record world =
  g_initialized :: int
  g_fake_gpus :: "nat \<Rightarrow> fakeGpu_t"
  mem :: "nat \<rightharpoonup> val"
  stderr :: "trace_line list"

datatype fault = NullDereference | InvalidAccess | BufferOverflow

definition LOG :: "env \<Rightarrow> string \<Rightarrow> string \<Rightarrow> world \<Rightarrow> world" where
  "LOG e func_name msg w =
     (if environ e ''FAKE_NVML_LOG'' \<noteq> None
      then w\<lparr>stderr := stderr w @ [(clock e, process_id e, process_id e, func_name, msg)]\<rparr>
      else w)"

text \<open>Writing one object through a pointer (\<open>*p = v\<close>, or \<open>memcpy\<close> of a whole struct).\<close>

definition store :: "ptr \<Rightarrow> val \<Rightarrow> world \<Rightarrow> fault + world" where
  "store p v w =
     (case p of
        NULL \<Rightarrow> Inl NullDereference
      | GpuSlot i \<Rightarrow> Inl InvalidAccess
      | Cell a \<Rightarrow>
          (case mem w a of
             None \<Rightarrow> Inl InvalidAccess
           | Some old \<Rightarrow>
               if same_kind old v then Inr (w\<lparr>mem := (mem w)(a \<mapsto> v)\<rparr>)
               else Inl InvalidAccess))"

text \<open>Reading a \<open>fakeGpu_t\<close> through a device handle (\<open>(fakeGpu_t*)device\<close>).\<close>

definition gpu_at :: "nvmlDevice_t \<Rightarrow> world \<Rightarrow> fault + fakeGpu_t" where
  "gpu_at p w =
     (case p of
        NULL \<Rightarrow> Inl NullDereference
      | GpuSlot i \<Rightarrow> if i < FAKE_GPU_COUNT then Inr (g_fake_gpus w i) else Inl InvalidAccess
      | Cell a \<Rightarrow> Inl InvalidAccess)"

subsection \<open>The C library functions used\<close>

text \<open>
  \<open>strncpy(dest, src, n)\<close> writes exactly \<open>n\<close> bytes: the characters of \<open>src\<close> up to
  its terminator, then null bytes up to \<open>n\<close>. It adds no terminator of its own.
  The sources of this program are a string literal and the arrays \<open>name\<close> and
  \<open>uuid\<close>, which hold a terminator from the start of the process on; for an array
  without one the model stops reading at its end.
\<close>

definition strncpy :: "char list \<Rightarrow> char list \<Rightarrow> nat \<Rightarrow> char list" where
  "strncpy dest src n =
     (let s = takeWhile (\<lambda>c. c \<noteq> NUL) src
      in take n (s @ replicate (n - length s) NUL) @ drop n dest)"

definition strncpy_to :: "ptr \<Rightarrow> char list \<Rightarrow> nat \<Rightarrow> world \<Rightarrow> fault + world" where
  "strncpy_to p src n w =
     (case p of
        NULL \<Rightarrow> Inl NullDereference
      | GpuSlot i \<Rightarrow> Inl InvalidAccess
      | Cell a \<Rightarrow>
          (case mem w a of
             Some (CharsV buf) \<Rightarrow>
               if n \<le> length buf then Inr (w\<lparr>mem := (mem w)(a \<mapsto> CharsV (strncpy buf src n))\<rparr>)
               else Inl BufferOverflow
           | _ \<Rightarrow> Inl InvalidAccess))"

text \<open>
  \<open>snprintf(buf, size, ...)\<close> on the formatted text \<open>s\<close>: at most \<open>size - 1\<close>
  characters and a terminator; the rest of the array keeps its content.
\<close>

definition snprintf :: "char list \<Rightarrow> nat \<Rightarrow> string \<Rightarrow> char list" where
  "snprintf buf sz s =
     (if sz = 0 then buf
      else (let out = take (sz - 1) s @ [NUL] in out @ drop (length out) buf))"

text \<open>The conversion \<open>%d\<close>.\<close>

definition digit :: "nat \<Rightarrow> char" where
  "digit d = ''0123456789'' ! d"

function dec :: "nat \<Rightarrow> string" where
  "dec n = (if n < 10 then [digit n] else dec (n div 10) @ [digit (n mod 10)])"
  by pat_completeness auto
termination
  by (relation "measure (\<lambda>n. n)") auto

declare dec.simps [simp del]

definition fmt_d :: "int \<Rightarrow> string" where
  "fmt_d k = (if k < 0 then CHR ''-'' # dec (nat (- k)) else dec (nat k))"

subsection \<open>The API\<close>

text \<open>The body of the loop of \<open>nvmlInit_v2\<close> for one \<open>i\<close>.\<close>

definition init_gpu :: "nat \<Rightarrow> fakeGpu_t \<Rightarrow> fakeGpu_t" where
  "init_gpu i g =
     g\<lparr>index := int i,
       name := snprintf (name g) NVML_DEVICE_NAME_BUFFER_SIZE FAKE_GPU_NAME,
       uuid := snprintf (uuid g) NVML_DEVICE_UUID_BUFFER_SIZE
                 (''GPU-'' @ fmt_d (int i) @ ''-FAKE-UUID''),
       pci := (pci g)\<lparr>
                busId := snprintf (busId (pci g)) NVML_DEVICE_PCI_BUS_ID_BUFFER_SIZE
                           (''00000000:0'' @ fmt_d (int i + 1) @ '':00.0''),
                domain := 0,
                bus := word_of_int (int i + 1),
                device := 0,
                pciDeviceId := 0x1EB8,
                pciSubSystemId := 0x12A210DE\<rparr>,
       handle := GpuSlot i\<rparr>"

function init_loop :: "nat \<Rightarrow> (nat \<Rightarrow> fakeGpu_t) \<Rightarrow> (nat \<Rightarrow> fakeGpu_t)" where
  "init_loop i gpus =
     (if i < FAKE_GPU_COUNT then init_loop (i + 1) (gpus(i := init_gpu i (gpus i)))
      else gpus)"
  by pat_completeness auto
termination
  by (relation "measure (\<lambda>(i, gpus). FAKE_GPU_COUNT - i)") auto

declare init_loop.simps [simp del]

definition nvmlInit_v2 :: "env \<Rightarrow> world \<Rightarrow> fault + (nvmlReturn_t \<times> world)" where
  "nvmlInit_v2 e w0 =
     (let w = LOG e ''nvmlInit_v2'' ''enter'' w0 in
      if g_initialized w \<noteq> 0 then Inr (NVML_ERROR_ALREADY_INITIALIZED, w)
      else
        (let w1 = w\<lparr>g_fake_gpus := init_loop 0 (g_fake_gpus w)\<rparr>;
             w2 = w1\<lparr>g_initialized := 1\<rparr>
         in Inr (NVML_SUCCESS, LOG e ''nvmlInit_v2'' ''exit'' w2)))"

definition nvmlShutdown :: "env \<Rightarrow> world \<Rightarrow> fault + (nvmlReturn_t \<times> world)" where
  "nvmlShutdown e w0 =
     (let w = LOG e ''nvmlShutdown'' ''enter'' w0 in
      if g_initialized w = 0 then Inr (NVML_ERROR_UNINITIALIZED, w)
      else Inr (NVML_SUCCESS, LOG e ''nvmlShutdown'' ''exit'' (w\<lparr>g_initialized := 0\<rparr>)))"

definition nvmlErrorString :: "env \<Rightarrow> nvmlReturn_t \<Rightarrow> world \<Rightarrow> string \<times> world" where
  "nvmlErrorString e result w0 =
     (let w = LOG e ''nvmlErrorString'' ''enter'' w0;
          w' = LOG e ''nvmlErrorString'' (''Translating error code: '' @ fmt_d result) w
      in (if result = NVML_SUCCESS then ''Success''
          else if result = NVML_ERROR_UNINITIALIZED then ''Uninitialized''
          else if result = NVML_ERROR_INVALID_ARGUMENT then ''Invalid Argument''
          else if result = NVML_ERROR_NOT_SUPPORTED then ''Not Supported''
          else if result = NVML_ERROR_NO_PERMISSION then ''No Permission''
          else if result = NVML_ERROR_ALREADY_INITIALIZED then ''Already Initialized''
          else if result = NVML_ERROR_NOT_FOUND then ''Not Found''
          else if result = NVML_ERROR_INSUFFICIENT_SIZE then ''Insufficient Size''
          else if result = NVML_ERROR_DRIVER_NOT_LOADED then ''Driver Not Loaded''
          else if result = NVML_ERROR_FUNCTION_NOT_FOUND then ''Function Not Found''
          else ''Unknown Error'',
          w'))"

definition nvmlSystemGetDriverVersion ::
  "env \<Rightarrow> ptr \<Rightarrow> 32 word \<Rightarrow> world \<Rightarrow> fault + (nvmlReturn_t \<times> world)" where
  "nvmlSystemGetDriverVersion e version len w0 =
     (let w = LOG e ''nvmlSystemGetDriverVersion'' ''enter'' w0 in
      if g_initialized w = 0 then Inr (NVML_ERROR_UNINITIALIZED, w)
      else
        (case strncpy_to version FAKE_DRIVER_VERSION (unat len) w of
           Inl f \<Rightarrow> Inl f
         | Inr w1 \<Rightarrow> Inr (NVML_SUCCESS, LOG e ''nvmlSystemGetDriverVersion'' ''exit'' w1)))"

definition nvmlSystemGetCudaDriverVersion ::
  "env \<Rightarrow> ptr \<Rightarrow> world \<Rightarrow> fault + (nvmlReturn_t \<times> world)" where
  "nvmlSystemGetCudaDriverVersion e cudaDriverVersion w0 =
     (let w = LOG e ''nvmlSystemGetCudaDriverVersion'' ''enter'' w0 in
      if g_initialized w = 0 then Inr (NVML_ERROR_UNINITIALIZED, w)
      else
        (case store cudaDriverVersion (IntV FAKE_CUDA_VERSION) w of
           Inl f \<Rightarrow> Inl f
         | Inr w1 \<Rightarrow> Inr (NVML_SUCCESS, LOG e ''nvmlSystemGetCudaDriverVersion'' ''exit'' w1)))"

definition nvmlDeviceGetCount_v2 ::
  "env \<Rightarrow> ptr \<Rightarrow> world \<Rightarrow> fault + (nvmlReturn_t \<times> world)" where
  "nvmlDeviceGetCount_v2 e deviceCount w0 =
     (let w = LOG e ''nvmlDeviceGetCount_v2'' ''enter'' w0 in
      if g_initialized w = 0 then Inr (NVML_ERROR_UNINITIALIZED, w)
      else
        (case store deviceCount (UIntV (of_nat FAKE_GPU_COUNT)) w of
           Inl f \<Rightarrow> Inl f
         | Inr w1 \<Rightarrow> Inr (NVML_SUCCESS, LOG e ''nvmlDeviceGetCount_v2'' ''exit'' w1)))"

definition nvmlDeviceGetHandleByIndex_v2 ::
  "env \<Rightarrow> 32 word \<Rightarrow> ptr \<Rightarrow> world \<Rightarrow> fault + (nvmlReturn_t \<times> world)" where
  "nvmlDeviceGetHandleByIndex_v2 e idx dev w0 =
     (let w = LOG e ''nvmlDeviceGetHandleByIndex_v2'' ''enter'' w0 in
      if g_initialized w = 0 then Inr (NVML_ERROR_UNINITIALIZED, w)
      else if idx \<ge> of_nat FAKE_GPU_COUNT then Inr (NVML_ERROR_INVALID_ARGUMENT, w)
      else
        (case store dev (DevV (handle (g_fake_gpus w (unat idx)))) w of
           Inl f \<Rightarrow> Inl f
         | Inr w1 \<Rightarrow> Inr (NVML_SUCCESS, LOG e ''nvmlDeviceGetHandleByIndex_v2'' ''exit'' w1)))"

definition nvmlDeviceGetName ::
  "env \<Rightarrow> nvmlDevice_t \<Rightarrow> ptr \<Rightarrow> 32 word \<Rightarrow> world \<Rightarrow> fault + (nvmlReturn_t \<times> world)" where
  "nvmlDeviceGetName e dev nm len w0 =
     (let w = LOG e ''nvmlDeviceGetName'' ''enter'' w0 in
      if g_initialized w = 0 then Inr (NVML_ERROR_UNINITIALIZED, w)
      else
        (case gpu_at dev w of
           Inl f \<Rightarrow> Inl f
         | Inr gpu \<Rightarrow>
             (case strncpy_to nm (name gpu) (unat len) w of
                Inl f \<Rightarrow> Inl f
              | Inr w1 \<Rightarrow> Inr (NVML_SUCCESS, LOG e ''nvmlDeviceGetName'' ''exit'' w1))))"

definition nvmlDeviceGetUUID ::
  "env \<Rightarrow> nvmlDevice_t \<Rightarrow> ptr \<Rightarrow> 32 word \<Rightarrow> world \<Rightarrow> fault + (nvmlReturn_t \<times> world)" where
  "nvmlDeviceGetUUID e dev uu len w0 =
     (let w = LOG e ''nvmlDeviceGetUUID'' ''enter'' w0 in
      if g_initialized w = 0 then Inr (NVML_ERROR_UNINITIALIZED, w)
      else
        (case gpu_at dev w of
           Inl f \<Rightarrow> Inl f
         | Inr gpu \<Rightarrow>
             (case strncpy_to uu (uuid gpu) (unat len) w of
                Inl f \<Rightarrow> Inl f
              | Inr w1 \<Rightarrow> Inr (NVML_SUCCESS, LOG e ''nvmlDeviceGetUUID'' ''exit'' w1))))"

definition nvmlDeviceGetPciInfo ::
  "env \<Rightarrow> nvmlDevice_t \<Rightarrow> ptr \<Rightarrow> world \<Rightarrow> fault + (nvmlReturn_t \<times> world)" where
  "nvmlDeviceGetPciInfo e dev pc w0 =
     (let w = LOG e ''nvmlDeviceGetPciInfo'' ''enter'' w0 in
      if g_initialized w = 0 then Inr (NVML_ERROR_UNINITIALIZED, w)
      else
        (case gpu_at dev w of
           Inl f \<Rightarrow> Inl f
         | Inr gpu \<Rightarrow>
             (case store pc (PciV (pci gpu)) w of
                Inl f \<Rightarrow> Inl f
              | Inr w1 \<Rightarrow> Inr (NVML_SUCCESS, LOG e ''nvmlDeviceGetPciInfo'' ''exit'' w1))))"

definition nvmlDeviceGetCudaComputeCapability ::
  "env \<Rightarrow> nvmlDevice_t \<Rightarrow> ptr \<Rightarrow> ptr \<Rightarrow> world \<Rightarrow> fault + (nvmlReturn_t \<times> world)" where
  "nvmlDeviceGetCudaComputeCapability e dev major minor w0 =
     (let w = LOG e ''nvmlDeviceGetCudaComputeCapability'' ''enter'' w0 in
      if g_initialized w = 0 then Inr (NVML_ERROR_UNINITIALIZED, w)
      else if major = NULL \<or> minor = NULL then Inr (NVML_ERROR_INVALID_ARGUMENT, w)
      else
        (case store major (IntV 7) w of
           Inl f \<Rightarrow> Inl f
         | Inr w1 \<Rightarrow>
             (case store minor (IntV 5) w1 of
                Inl f \<Rightarrow> Inl f
              | Inr w2 \<Rightarrow>
                  Inr (NVML_SUCCESS, LOG e ''nvmlDeviceGetCudaComputeCapability'' ''exit'' w2))))"

definition nvmlDeviceGetBrand ::
  "env \<Rightarrow> nvmlDevice_t \<Rightarrow> ptr \<Rightarrow> world \<Rightarrow> fault + (nvmlReturn_t \<times> world)" where
  "nvmlDeviceGetBrand e dev ty w0 =
     (let w = LOG e ''nvmlDeviceGetBrand'' ''enter'' w0 in
      if g_initialized w = 0 then Inr (NVML_ERROR_UNINITIALIZED, w)
      else
        (case store ty (UIntV NVML_BRAND_TESLA) w of
           Inl f \<Rightarrow> Inl f
         | Inr w1 \<Rightarrow> Inr (NVML_SUCCESS, LOG e ''nvmlDeviceGetBrand'' ''exit'' w1)))"

definition nvmlDeviceGetMinorNumber ::
  "env \<Rightarrow> nvmlDevice_t \<Rightarrow> ptr \<Rightarrow> world \<Rightarrow> fault + (nvmlReturn_t \<times> world)" where
  "nvmlDeviceGetMinorNumber e dev minorNumber w0 =
     (let w = LOG e ''nvmlDeviceGetMinorNumber'' ''enter'' w0 in
      if g_initialized w = 0 then Inr (NVML_ERROR_UNINITIALIZED, w)
      else
        (case gpu_at dev w of
           Inl f \<Rightarrow> Inl f
         | Inr gpu \<Rightarrow>
             (case store minorNumber (UIntV (word_of_int (index gpu))) w of
                Inl f \<Rightarrow> Inl f
              | Inr w1 \<Rightarrow> Inr (NVML_SUCCESS, LOG e ''nvmlDeviceGetMinorNumber'' ''exit'' w1))))"

definition nvmlDeviceGetMigCapability ::
  "env \<Rightarrow> nvmlDevice_t \<Rightarrow> ptr \<Rightarrow> ptr \<Rightarrow> world \<Rightarrow> fault + (nvmlReturn_t \<times> world)" where
  "nvmlDeviceGetMigCapability e dev isMigCapable isMigGpu w0 =
     (let w = LOG e ''nvmlDeviceGetMigCapability'' ''enter'' w0 in
      if g_initialized w = 0 then Inr (NVML_ERROR_UNINITIALIZED, w)
      else if isMigCapable = NULL \<or> isMigGpu = NULL then Inr (NVML_ERROR_INVALID_ARGUMENT, w)
      else
        (case store isMigCapable (UIntV 0) w of
           Inl f \<Rightarrow> Inl f
         | Inr w1 \<Rightarrow>
             (case store isMigGpu (UIntV 0) w1 of
                Inl f \<Rightarrow> Inl f
              | Inr w2 \<Rightarrow> Inr (NVML_SUCCESS, LOG e ''nvmlDeviceGetMigCapability'' ''exit'' w2))))"

definition nvmlDeviceGetMigMode ::
  "env \<Rightarrow> nvmlDevice_t \<Rightarrow> ptr \<Rightarrow> ptr \<Rightarrow> world \<Rightarrow> fault + (nvmlReturn_t \<times> world)" where
  "nvmlDeviceGetMigMode e dev currentMode pendingMode w0 =
     (let w = LOG e ''nvmlDeviceGetMigMode'' ''enter'' w0 in
      if g_initialized w = 0 then Inr (NVML_ERROR_UNINITIALIZED, w)
      else if currentMode = NULL \<or> pendingMode = NULL then Inr (NVML_ERROR_INVALID_ARGUMENT, w)
      else
        (case store currentMode (UIntV NVML_FEATURE_DISABLED) w of
           Inl f \<Rightarrow> Inl f
         | Inr w1 \<Rightarrow>
             (case store pendingMode (UIntV NVML_FEATURE_DISABLED) w1 of
                Inl f \<Rightarrow> Inl f
              | Inr w2 \<Rightarrow> Inr (NVML_SUCCESS, LOG e ''nvmlDeviceGetMigMode'' ''exit'' w2))))"

subsection \<open>Calls as data\<close>

text \<open>
  Every entry point with its arguments, so that a statement can range over all of them.
  \<open>nvmlErrorString\<close> returns a string, every other function a result code.
\<close>

datatype call =
    Init
  | Shutdown
  | ErrorString nvmlReturn_t
  | SystemGetDriverVersion ptr "32 word"
  | SystemGetCudaDriverVersion ptr
  | DeviceGetCount ptr
  | DeviceGetHandleByIndex "32 word" ptr
  | DeviceGetName nvmlDevice_t ptr "32 word"
  | DeviceGetUUID nvmlDevice_t ptr "32 word"
  | DeviceGetPciInfo nvmlDevice_t ptr
  | DeviceGetCudaComputeCapability nvmlDevice_t ptr ptr
  | DeviceGetBrand nvmlDevice_t ptr
  | DeviceGetMinorNumber nvmlDevice_t ptr
  | DeviceGetMigCapability nvmlDevice_t ptr ptr
  | DeviceGetMigMode nvmlDevice_t ptr ptr

datatype retval = Code nvmlReturn_t | Text string

definition as_code :: "fault + (nvmlReturn_t \<times> world) \<Rightarrow> fault + (retval \<times> world)" where
  "as_code r = (case r of Inl f \<Rightarrow> Inl f | Inr (c, w) \<Rightarrow> Inr (Code c, w))"

fun exec :: "env \<Rightarrow> call \<Rightarrow> world \<Rightarrow> fault + (retval \<times> world)" where
  "exec e Init w = as_code (nvmlInit_v2 e w)"
| "exec e Shutdown w = as_code (nvmlShutdown e w)"
| "exec e (ErrorString c) w = (case nvmlErrorString e c w of (s, w') \<Rightarrow> Inr (Text s, w'))"
| "exec e (SystemGetDriverVersion p n) w = as_code (nvmlSystemGetDriverVersion e p n w)"
| "exec e (SystemGetCudaDriverVersion p) w = as_code (nvmlSystemGetCudaDriverVersion e p w)"
| "exec e (DeviceGetCount p) w = as_code (nvmlDeviceGetCount_v2 e p w)"
| "exec e (DeviceGetHandleByIndex i p) w = as_code (nvmlDeviceGetHandleByIndex_v2 e i p w)"
| "exec e (DeviceGetName d p n) w = as_code (nvmlDeviceGetName e d p n w)"
| "exec e (DeviceGetUUID d p n) w = as_code (nvmlDeviceGetUUID e d p n w)"
| "exec e (DeviceGetPciInfo d p) w = as_code (nvmlDeviceGetPciInfo e d p w)"
| "exec e (DeviceGetCudaComputeCapability d p q) w =
     as_code (nvmlDeviceGetCudaComputeCapability e d p q w)"
| "exec e (DeviceGetBrand d p) w = as_code (nvmlDeviceGetBrand e d p w)"
| "exec e (DeviceGetMinorNumber d p) w = as_code (nvmlDeviceGetMinorNumber e d p w)"
| "exec e (DeviceGetMigCapability d p q) w = as_code (nvmlDeviceGetMigCapability e d p q w)"
| "exec e (DeviceGetMigMode d p q) w = as_code (nvmlDeviceGetMigMode e d p q w)"

text \<open>The query operations: everything but the lifecycle and the error strings.\<close>

fun is_query :: "call \<Rightarrow> bool" where
  "is_query Init = False"
| "is_query Shutdown = False"
| "is_query (ErrorString c) = False"
| "is_query _ = True"

text \<open>
  What a caller can observe of a call: the fault or the returned value, the two globals
  and the memory. The standard error stream is left out.
\<close>

definition observable ::
  "fault + (retval \<times> world) \<Rightarrow>
   fault + (retval \<times> int \<times> (nat \<Rightarrow> fakeGpu_t) \<times> (nat \<rightharpoonup> val))" where
  "observable r =
     (case r of
        Inl f \<Rightarrow> Inl f
      | Inr (v, w) \<Rightarrow> Inr (v, g_initialized w, g_fake_gpus w, mem w))"

text \<open>The result code of a call and the content of one cell of the caller afterwards.\<close>

definition result_at ::
  "nat \<Rightarrow> fault + (nvmlReturn_t \<times> world) \<Rightarrow> fault + (nvmlReturn_t \<times> val option)" where
  "result_at a r = (case r of Inl f \<Rightarrow> Inl f | Inr (c, w) \<Rightarrow> Inr (c, mem w a))"


subsection \<open>Concrete states\<close>

text \<open>
  The process at start: C zero-initialises the static array and the flag. \<open>boot m\<close> is
  that state for a caller whose memory is \<open>m\<close>; \<open>ready m\<close> is the state one
  \<open>nvmlInit_v2\<close> later (lemma \<open>init_boot\<close>).
\<close>

definition zero_gpu :: fakeGpu_t where
  "zero_gpu =
     \<lparr>index = 0,
      name = replicate NVML_DEVICE_NAME_BUFFER_SIZE NUL,
      uuid = replicate NVML_DEVICE_UUID_BUFFER_SIZE NUL,
      pci = \<lparr>busId = replicate NVML_DEVICE_PCI_BUS_ID_BUFFER_SIZE NUL,
             domain = 0, bus = 0, device = 0, pciDeviceId = 0, pciSubSystemId = 0\<rparr>,
      handle = NULL\<rparr>"

definition boot :: "(nat \<rightharpoonup> val) \<Rightarrow> world" where
  "boot m = \<lparr>g_initialized = 0, g_fake_gpus = (\<lambda>i. zero_gpu), mem = m, stderr = []\<rparr>"

definition ready :: "(nat \<rightharpoonup> val) \<Rightarrow> world" where
  "ready m =
     \<lparr>g_initialized = 1, g_fake_gpus = init_loop 0 (\<lambda>i. zero_gpu), mem = m, stderr = []\<rparr>"

text \<open>A caller's memory with one object of every kind.\<close>

definition caller_mem :: "nat \<rightharpoonup> val" where
  "caller_mem =
     [0 \<mapsto> CharsV ''xxxx'', 1 \<mapsto> PciV (pci zero_gpu), 2 \<mapsto> UIntV 0,
      3 \<mapsto> DevV NULL, 4 \<mapsto> IntV 0, 5 \<mapsto> IntV 0]"

definition quiet :: env where
  "quiet = \<lparr>environ = Map.empty, clock = 0, process_id = 1\<rparr>"

definition tracing :: env where
  "tracing = \<lparr>environ = [''FAKE_NVML_LOG'' \<mapsto> ''1''], clock = 0, process_id = 1\<rparr>"

section \<open>Properties\<close>

subsection \<open>Auxiliary facts\<close>

lemmas nvml_codes =
  NVML_SUCCESS_def NVML_ERROR_UNINITIALIZED_def NVML_ERROR_INVALID_ARGUMENT_def
  NVML_ERROR_NOT_SUPPORTED_def NVML_ERROR_NO_PERMISSION_def
  NVML_ERROR_ALREADY_INITIALIZED_def NVML_ERROR_NOT_FOUND_def
  NVML_ERROR_INSUFFICIENT_SIZE_def NVML_ERROR_INSUFFICIENT_POWER_def
  NVML_ERROR_DRIVER_NOT_LOADED_def NVML_ERROR_TIMEOUT_def
  NVML_ERROR_FUNCTION_NOT_FOUND_def NVML_ERROR_UNKNOWN_def

lemmas nvml_sizes =
  NVML_DEVICE_NAME_BUFFER_SIZE_def NVML_DEVICE_UUID_BUFFER_SIZE_def
  NVML_SYSTEM_DRIVER_VERSION_BUFFER_SIZE_def NVML_DEVICE_PCI_BUS_ID_BUFFER_SIZE_def

text \<open>
  The trace touches nothing but the standard error stream, and neither memory access
  looks at that stream.
\<close>

lemma LOG_flag [simp]: "g_initialized (LOG e f m w) = g_initialized w"
  by (simp add: LOG_def)

lemma LOG_gpus [simp]: "g_fake_gpus (LOG e f m w) = g_fake_gpus w"
  by (simp add: LOG_def)

lemma LOG_mem [simp]: "mem (LOG e f m w) = mem w"
  by (simp add: LOG_def)

lemma LOG_quiet [simp]: "LOG quiet f m w = w"
  by (simp add: LOG_def quiet_def)

lemma store_LOG:
  "store p v (LOG e f m w) = (case store p v w of Inl x \<Rightarrow> Inl x | Inr w' \<Rightarrow> Inr (LOG e f m w'))"
  by (simp add: store_def LOG_def split: ptr.splits option.splits)

lemma strncpy_to_LOG:
  "strncpy_to p src n (LOG e f m w) =
     (case strncpy_to p src n w of Inl x \<Rightarrow> Inl x | Inr w' \<Rightarrow> Inr (LOG e f m w'))"
  by (simp add: strncpy_to_def LOG_def split: ptr.splits option.splits val.splits)

lemma gpu_at_LOG: "gpu_at p (LOG e f m w) = gpu_at p w"
  by (simp add: gpu_at_def split: ptr.splits)

text \<open>
  Memory accesses through a null pointer, through a pointer to an object of the caller,
  and through a device handle that addresses a record of the registry.
\<close>

lemma store_NULL: "store NULL v w = Inl NullDereference"
  by (simp add: store_def)

lemma store_Cell:
  "mem w a = Some old \<Longrightarrow> same_kind old v \<Longrightarrow>
   store (Cell a) v w = Inr (w\<lparr>mem := (mem w)(a \<mapsto> v)\<rparr>)"
  by (simp add: store_def)


lemma gpu_at_slot: "i < FAKE_GPU_COUNT \<Longrightarrow> gpu_at (GpuSlot i) w = Inr (g_fake_gpus w i)"
  by (simp add: gpu_at_def)

text \<open>
  The loop of \<open>nvmlInit_v2\<close> rewrites the records \<open>i\<close> to \<open>FAKE_GPU_COUNT - 1\<close>.
\<close>

lemma init_loop_from:
  "init_loop i gpus = (\<lambda>j. if i \<le> j \<and> j < FAKE_GPU_COUNT then init_gpu j (gpus j) else gpus j)"
proof (induction i gpus rule: init_loop.induct)
  case (1 i gpus)
  show ?case
  proof (cases "i < FAKE_GPU_COUNT")
    case True
    have "init_loop i gpus = init_loop (i + 1) (gpus(i := init_gpu i (gpus i)))"
      using True by (subst init_loop.simps) simp
    also have "\<dots> = (\<lambda>j. if i + 1 \<le> j \<and> j < FAKE_GPU_COUNT
                         then init_gpu j ((gpus(i := init_gpu i (gpus i))) j)
                         else (gpus(i := init_gpu i (gpus i))) j)"
      using "1.IH" [OF True] .
    also have "\<dots> = (\<lambda>j. if i \<le> j \<and> j < FAKE_GPU_COUNT then init_gpu j (gpus j) else gpus j)"
      using True by (auto simp: fun_eq_iff)
    finally show ?thesis .
  next
    case False
    then show ?thesis by (subst init_loop.simps) (auto simp: fun_eq_iff)
  qed
qed

lemma init_loop_0:
  "init_loop 0 gpus j = (if j < FAKE_GPU_COUNT then init_gpu j (gpus j) else gpus j)"
  by (simp add: init_loop_from)

lemma init_gpu_handle [simp]: "handle (init_gpu i g) = GpuSlot i"
  and init_gpu_index [simp]: "index (init_gpu i g) = int i"
  by (simp_all add: init_gpu_def)

lemma init_boot: "nvmlInit_v2 quiet (boot m) = Inr (NVML_SUCCESS, ready m)"
  by (simp add: nvmlInit_v2_def boot_def ready_def Let_def)

lemma ready_flag [simp]: "g_initialized (ready m) = 1"
  and ready_mem [simp]: "mem (ready m) = m"
  by (simp_all add: ready_def)

lemma ready_gpu:
  "j < FAKE_GPU_COUNT \<Longrightarrow> g_fake_gpus (ready m) j = init_gpu j zero_gpu"
  by (simp add: ready_def init_loop_0)

lemma dec_digit: "n < 10 \<Longrightarrow> dec n = [digit n]"
  by (subst dec.simps) simp

lemma init_success:
  "nvmlInit_v2 e w0 = Inr (NVML_SUCCESS, w1) \<Longrightarrow>
   g_initialized w0 = 0 \<and> g_initialized w1 = 1 \<and> mem w1 = mem w0
   \<and> g_fake_gpus w1 = init_loop 0 (g_fake_gpus w0)"
  by (auto simp: nvmlInit_v2_def Let_def nvml_codes split: if_splits)

text \<open>
  What \<open>strncpy\<close> guarantees: the buffer keeps its size, nothing beyond the first
  \<open>n\<close> bytes changes, and a terminator lies within the first \<open>n\<close> bytes exactly
  when the source string is shorter than \<open>n\<close>.
\<close>

lemma strncpy_length: "n \<le> length dest \<Longrightarrow> length (strncpy dest src n) = length dest"
  by (simp add: strncpy_def Let_def)

lemma strncpy_rest: "drop n (strncpy dest src n) = drop n dest"
  by (simp add: strncpy_def Let_def)

lemma strncpy_prefix:
  "take n (strncpy dest src n) =
     take n (takeWhile (\<lambda>c. c \<noteq> NUL) src) @
     replicate (n - length (takeWhile (\<lambda>c. c \<noteq> NUL) src)) NUL"
  by (simp add: strncpy_def Let_def)

lemma strncpy_terminated_iff:
  "NUL \<in> set (take n (strncpy dest src n)) \<longleftrightarrow> length (takeWhile (\<lambda>c. c \<noteq> NUL) src) < n"
proof -
  have "NUL \<notin> set (take n (takeWhile (\<lambda>c. c \<noteq> NUL) src))"
    by (auto dest!: in_set_takeD set_takeWhileD)
  then show ?thesis
    by (auto simp: strncpy_prefix)
qed

text \<open>
  The unsigned comparison of \<open>nvmlDeviceGetHandleByIndex_v2\<close>, and what a negative
  \<open>int\<close> becomes when passed as the \<open>unsigned int\<close> index.
\<close>

lemma count_le_iff: "(of_nat FAKE_GPU_COUNT \<le> (idx :: 32 word)) = (FAKE_GPU_COUNT \<le> unat idx)"
  by (simp add: FAKE_GPU_COUNT_def word_le_nat_alt)

lemma negative_index_large:
  assumes "- (2 ^ 31) \<le> k" "k < 0"
  shows "FAKE_GPU_COUNT \<le> unat (word_of_int k :: 32 word)"
proof -
  have "uint (word_of_int k :: 32 word) = k mod 2 ^ 32"
    by (simp add: uint_word_of_int)
  also have "\<dots> = (k + 2 ^ 32) mod 2 ^ 32"
    by simp
  also have "\<dots> = k + 2 ^ 32"
    using assms by (intro mod_pos_pos_trivial) simp_all
  finally have "uint (word_of_int k :: 32 word) = k + 2 ^ 32" .
  then have "unat (word_of_int k :: 32 word) = nat (k + 2 ^ 32)"
    by (simp add: unat_eq_nat_uint)
  then show ?thesis
    using assms by (simp add: FAKE_GPU_COUNT_def)
qed

subsection \<open>String outputs\<close>

text \<open>
  Claim C1. The claim: for every buffer length of at least 1, a string-output operation
  copies at most \<open>length - 1\<close> bytes of the source and a terminating null. The code
  calls \<open>strncpy\<close> with the full length: with a buffer of 4 bytes and length 4, after
  \<open>nvmlInit_v2\<close>, \<open>nvmlSystemGetDriverVersion\<close>, \<open>nvmlDeviceGetName\<close> and
  \<open>nvmlDeviceGetUUID\<close> each return \<open>NVML_SUCCESS\<close> and leave four bytes of the
  source in the buffer, none of them null.
\<close>

theorem string_copy_unterminated:
  "nvmlInit_v2 quiet (boot caller_mem) = Inr (NVML_SUCCESS, ready caller_mem)
   \<and> result_at 0 (nvmlSystemGetDriverVersion quiet (Cell 0) 4 (ready caller_mem))
     = Inr (NVML_SUCCESS, Some (CharsV ''535.''))
   \<and> result_at 0 (nvmlDeviceGetName quiet (GpuSlot 0) (Cell 0) 4 (ready caller_mem))
     = Inr (NVML_SUCCESS, Some (CharsV ''NVID''))
   \<and> result_at 0 (nvmlDeviceGetUUID quiet (GpuSlot 0) (Cell 0) 4 (ready caller_mem))
     = Inr (NVML_SUCCESS, Some (CharsV ''GPU-''))
   \<and> NUL \<notin> set ''535.'' \<and> NUL \<notin> set ''NVID'' \<and> NUL \<notin> set ''GPU-''"
proof -
  have buffer: "mem (ready caller_mem) 0 = Some (CharsV ''xxxx'')"
    by (simp add: caller_mem_def)
  have version:
    "result_at 0 (nvmlSystemGetDriverVersion quiet (Cell 0) 4 (ready caller_mem))
       = Inr (NVML_SUCCESS, Some (CharsV ''535.''))"
    by (simp add: result_at_def nvmlSystemGetDriverVersion_def strncpy_to_def strncpy_def
        buffer FAKE_DRIVER_VERSION_def Let_def del: ready_mem)
  have record0: "g_fake_gpus (ready caller_mem) 0 = init_gpu 0 zero_gpu"
    by (simp add: ready_gpu FAKE_GPU_COUNT_def)
  have name0: "name (init_gpu 0 zero_gpu) = ''NVIDIA Tesla T4'' @ NUL # replicate 48 NUL"
    by (simp add: init_gpu_def zero_gpu_def snprintf_def FAKE_GPU_NAME_def nvml_sizes Let_def)
  have uuid0: "uuid (init_gpu 0 zero_gpu) = ''GPU-0-FAKE-UUID'' @ NUL # replicate 64 NUL"
    by (simp add: init_gpu_def zero_gpu_def snprintf_def fmt_d_def dec_digit digit_def
        nvml_sizes Let_def)
  have device_name:
    "result_at 0 (nvmlDeviceGetName quiet (GpuSlot 0) (Cell 0) 4 (ready caller_mem))
       = Inr (NVML_SUCCESS, Some (CharsV ''NVID''))"
    by (simp add: result_at_def nvmlDeviceGetName_def strncpy_to_def strncpy_def gpu_at_def
        record0 name0 buffer FAKE_GPU_COUNT_def Let_def del: ready_mem)
  have device_uuid:
    "result_at 0 (nvmlDeviceGetUUID quiet (GpuSlot 0) (Cell 0) 4 (ready caller_mem))
       = Inr (NVML_SUCCESS, Some (CharsV ''GPU-''))"
    by (simp add: result_at_def nvmlDeviceGetUUID_def strncpy_to_def strncpy_def gpu_at_def
        record0 uuid0 buffer FAKE_GPU_COUNT_def Let_def del: ready_mem)
  from init_boot [of caller_mem] version device_name device_uuid show ?thesis
    by simp
qed

subsection \<open>Error strings\<close>

text \<open>
  Claim C2. The claim: every code of the enumeration has its own fixed string, and an
  unrecognised code gets the generic label. The \<open>switch\<close> of \<open>nvmlErrorString\<close>
  has no case for \<open>NVML_ERROR_INSUFFICIENT_POWER\<close> and \<open>NVML_ERROR_TIMEOUT\<close>:
  both get the generic label, as the unrecognised code 42 does.
\<close>

theorem error_string_missing_cases:
  "fst (nvmlErrorString e NVML_ERROR_INSUFFICIENT_POWER w) = ''Unknown Error''
   \<and> fst (nvmlErrorString e NVML_ERROR_TIMEOUT w) = ''Unknown Error''
   \<and> fst (nvmlErrorString e 42 w) = ''Unknown Error''"
  by (simp add: nvmlErrorString_def nvml_codes Let_def)

subsection \<open>Device handles\<close>




subsection \<open>Lifecycle\<close>

text \<open>
  Claim C4, amended. The flag starts false. From a state where the flag is false,
  \<open>nvmlInit_v2\<close> twice yields success, then \<open>NVML_ERROR_ALREADY_INITIALIZED\<close>;
  from a state where the flag is true, \<open>nvmlShutdown\<close> twice yields success, then
  \<open>NVML_ERROR_UNINITIALIZED\<close>. \<open>nvmlInit_v2\<close> fails exactly when the flag is
  true, \<open>nvmlShutdown\<close> exactly when it is false, and a failed call changes neither the
  flag, nor the registry, nor the memory.
\<close>

theorem init_shutdown_lifecycle:
  "g_initialized (boot m) = 0
   \<and> (g_initialized w = 0 \<longrightarrow>
        (\<exists>w1 w2. nvmlInit_v2 e1 w = Inr (NVML_SUCCESS, w1)
           \<and> nvmlInit_v2 e2 w1 = Inr (NVML_ERROR_ALREADY_INITIALIZED, w2)
           \<and> g_initialized w1 \<noteq> 0 \<and> g_initialized w2 = g_initialized w1))
   \<and> (g_initialized w \<noteq> 0 \<longrightarrow>
        (\<exists>w1 w2. nvmlShutdown e1 w = Inr (NVML_SUCCESS, w1)
           \<and> nvmlShutdown e2 w1 = Inr (NVML_ERROR_UNINITIALIZED, w2)
           \<and> g_initialized w1 = 0 \<and> g_initialized w2 = g_initialized w1))
   \<and> (\<exists>r w'. nvmlInit_v2 e1 w = Inr (r, w')
         \<and> (r \<noteq> NVML_SUCCESS) = (g_initialized w \<noteq> 0)
         \<and> (r = NVML_SUCCESS \<or> r = NVML_ERROR_ALREADY_INITIALIZED)
         \<and> (r \<noteq> NVML_SUCCESS \<longrightarrow>
              g_initialized w' = g_initialized w \<and> g_fake_gpus w' = g_fake_gpus w
              \<and> mem w' = mem w))
   \<and> (\<exists>r w'. nvmlShutdown e1 w = Inr (r, w')
         \<and> (r \<noteq> NVML_SUCCESS) = (g_initialized w = 0)
         \<and> (r = NVML_SUCCESS \<or> r = NVML_ERROR_UNINITIALIZED)
         \<and> (r \<noteq> NVML_SUCCESS \<longrightarrow>
              g_initialized w' = g_initialized w \<and> g_fake_gpus w' = g_fake_gpus w
              \<and> mem w' = mem w))"
proof -
  have start: "g_initialized (boot m) = 0"
    by (simp add: boot_def)
  have init2: "g_initialized w = 0 \<longrightarrow>
        (\<exists>w1 w2. nvmlInit_v2 e1 w = Inr (NVML_SUCCESS, w1)
           \<and> nvmlInit_v2 e2 w1 = Inr (NVML_ERROR_ALREADY_INITIALIZED, w2)
           \<and> g_initialized w1 \<noteq> 0 \<and> g_initialized w2 = g_initialized w1)"
    by (simp add: nvmlInit_v2_def Let_def)
  have shut2: "g_initialized w \<noteq> 0 \<longrightarrow>
        (\<exists>w1 w2. nvmlShutdown e1 w = Inr (NVML_SUCCESS, w1)
           \<and> nvmlShutdown e2 w1 = Inr (NVML_ERROR_UNINITIALIZED, w2)
           \<and> g_initialized w1 = 0 \<and> g_initialized w2 = g_initialized w1)"
    by (simp add: nvmlShutdown_def Let_def)
  have init1: "\<exists>r w'. nvmlInit_v2 e1 w = Inr (r, w')
         \<and> (r \<noteq> NVML_SUCCESS) = (g_initialized w \<noteq> 0)
         \<and> (r = NVML_SUCCESS \<or> r = NVML_ERROR_ALREADY_INITIALIZED)
         \<and> (r \<noteq> NVML_SUCCESS \<longrightarrow>
              g_initialized w' = g_initialized w \<and> g_fake_gpus w' = g_fake_gpus w
              \<and> mem w' = mem w)"
    by (simp add: nvmlInit_v2_def Let_def nvml_codes)
  have shut1: "\<exists>r w'. nvmlShutdown e1 w = Inr (r, w')
         \<and> (r \<noteq> NVML_SUCCESS) = (g_initialized w = 0)
         \<and> (r = NVML_SUCCESS \<or> r = NVML_ERROR_UNINITIALIZED)
         \<and> (r \<noteq> NVML_SUCCESS \<longrightarrow>
              g_initialized w' = g_initialized w \<and> g_fake_gpus w' = g_fake_gpus w
              \<and> mem w' = mem w)"
    by (simp add: nvmlShutdown_def Let_def nvml_codes)
  from start init2 shut2 init1 shut1 show ?thesis
    by blast
qed

text \<open>
  The amended claim from the start state (initialise twice) and one initialisation later
  (shut down twice).
\<close>

theorem init_shutdown_lifecycle_witness:
  "g_initialized (boot caller_mem) = 0
   \<and> (\<exists>w1 w2. nvmlInit_v2 quiet (boot caller_mem) = Inr (NVML_SUCCESS, w1)
          \<and> nvmlInit_v2 tracing w1 = Inr (NVML_ERROR_ALREADY_INITIALIZED, w2))
   \<and> g_initialized (ready caller_mem) \<noteq> 0
   \<and> (\<exists>w1 w2. nvmlShutdown quiet (ready caller_mem) = Inr (NVML_SUCCESS, w1)
          \<and> nvmlShutdown tracing w1 = Inr (NVML_ERROR_UNINITIALIZED, w2))"
proof -
  have off: "g_initialized (boot caller_mem) = 0" by (simp add: boot_def)
  have on: "g_initialized (ready caller_mem) \<noteq> 0" by simp
  show ?thesis
    using off on
      init_shutdown_lifecycle [of caller_mem "boot caller_mem" quiet tracing]
      init_shutdown_lifecycle [of caller_mem "ready caller_mem" quiet tracing]
    by blast
qed

text \<open>
  The claim as stated starts from any state. From an initialised state the first
  \<open>nvmlInit_v2\<close> already fails, and from the start state the first
  \<open>nvmlShutdown\<close> does.
\<close>

theorem lifecycle_counterexample:
  "nvmlInit_v2 quiet (boot caller_mem) = Inr (NVML_SUCCESS, ready caller_mem)
   \<and> nvmlInit_v2 quiet (ready caller_mem) = Inr (NVML_ERROR_ALREADY_INITIALIZED, ready caller_mem)
   \<and> NVML_ERROR_ALREADY_INITIALIZED \<noteq> NVML_SUCCESS
   \<and> nvmlShutdown quiet (boot caller_mem) = Inr (NVML_ERROR_UNINITIALIZED, boot caller_mem)
   \<and> NVML_ERROR_UNINITIALIZED \<noteq> NVML_SUCCESS"
proof -
  have again: "nvmlInit_v2 quiet (ready caller_mem)
      = Inr (NVML_ERROR_ALREADY_INITIALIZED, ready caller_mem)"
    by (simp add: nvmlInit_v2_def)
  have early: "nvmlShutdown quiet (boot caller_mem) = Inr (NVML_ERROR_UNINITIALIZED, boot caller_mem)"
    by (simp add: nvmlShutdown_def boot_def)
  from init_boot [of caller_mem] again early show ?thesis
    by (simp add: nvml_codes)
qed

subsection \<open>Enumeration\<close>

text \<open>
  Claim C5. With the flag set, \<open>nvmlDeviceGetHandleByIndex_v2\<close> writes the handle
  of record \<open>index\<close> for every index below the device count; for the count itself,
  every larger index and every negative \<open>int\<close> passed as the unsigned index it returns
  \<open>NVML_ERROR_INVALID_ARGUMENT\<close>. With the flag clear it returns
  \<open>NVML_ERROR_UNINITIALIZED\<close>.
\<close>

theorem get_handle_by_index:
  "(g_initialized w \<noteq> 0 \<and> unat idx < FAKE_GPU_COUNT \<and> mem w a = Some (DevV d0) \<longrightarrow>
      (\<exists>w'. nvmlDeviceGetHandleByIndex_v2 e idx (Cell a) w = Inr (NVML_SUCCESS, w')
         \<and> mem w' a = Some (DevV (handle (g_fake_gpus w (unat idx))))))
   \<and> (g_initialized w \<noteq> 0 \<and> FAKE_GPU_COUNT \<le> unat idx \<longrightarrow>
      (\<exists>w'. nvmlDeviceGetHandleByIndex_v2 e idx dev w = Inr (NVML_ERROR_INVALID_ARGUMENT, w')
         \<and> mem w' = mem w))
   \<and> (g_initialized w \<noteq> 0 \<and> - (2 ^ 31) \<le> k \<and> k < 0 \<longrightarrow>
      (\<exists>w'. nvmlDeviceGetHandleByIndex_v2 e (word_of_int k) dev w
               = Inr (NVML_ERROR_INVALID_ARGUMENT, w')
         \<and> mem w' = mem w))
   \<and> (g_initialized w = 0 \<longrightarrow>
      (\<exists>w'. nvmlDeviceGetHandleByIndex_v2 e idx dev w = Inr (NVML_ERROR_UNINITIALIZED, w')
         \<and> mem w' = mem w))"
proof -
  have inside: "g_initialized w \<noteq> 0 \<and> unat idx < FAKE_GPU_COUNT \<and> mem w a = Some (DevV d0) \<longrightarrow>
      (\<exists>w'. nvmlDeviceGetHandleByIndex_v2 e idx (Cell a) w = Inr (NVML_SUCCESS, w')
         \<and> mem w' a = Some (DevV (handle (g_fake_gpus w (unat idx)))))"
    by (simp add: nvmlDeviceGetHandleByIndex_v2_def count_le_iff store_Cell Let_def)
  have outside: "g_initialized w \<noteq> 0 \<and> FAKE_GPU_COUNT \<le> unat i' \<longrightarrow>
      (\<exists>w'. nvmlDeviceGetHandleByIndex_v2 e i' dev w = Inr (NVML_ERROR_INVALID_ARGUMENT, w')
         \<and> mem w' = mem w)" for i'
    by (simp add: nvmlDeviceGetHandleByIndex_v2_def count_le_iff Let_def)
  have negative: "g_initialized w \<noteq> 0 \<and> - (2 ^ 31) \<le> k \<and> k < 0 \<longrightarrow>
      (\<exists>w'. nvmlDeviceGetHandleByIndex_v2 e (word_of_int k) dev w
               = Inr (NVML_ERROR_INVALID_ARGUMENT, w')
         \<and> mem w' = mem w)"
    using outside [of "word_of_int k"] negative_index_large [of k] by blast
  have closed: "g_initialized w = 0 \<longrightarrow>
      (\<exists>w'. nvmlDeviceGetHandleByIndex_v2 e idx dev w = Inr (NVML_ERROR_UNINITIALIZED, w')
         \<and> mem w' = mem w)"
    by (simp add: nvmlDeviceGetHandleByIndex_v2_def Let_def)
  from inside outside [of idx] negative closed show ?thesis
    by blast
qed

text \<open>
  Index 2, index 4 (the count) and index -1 on an initialised registry; index 2 before
  initialisation.
\<close>

theorem get_handle_by_index_witness:
  "(\<exists>w'. nvmlDeviceGetHandleByIndex_v2 quiet 2 (Cell 3) (ready caller_mem) = Inr (NVML_SUCCESS, w')
      \<and> mem w' 3 = Some (DevV (GpuSlot 2)))
   \<and> (\<exists>w'. nvmlDeviceGetHandleByIndex_v2 quiet 4 (Cell 3) (ready caller_mem)
              = Inr (NVML_ERROR_INVALID_ARGUMENT, w')
      \<and> mem w' = mem (ready caller_mem))
   \<and> (\<exists>w'. nvmlDeviceGetHandleByIndex_v2 quiet (word_of_int (- 1)) (Cell 3) (ready caller_mem)
              = Inr (NVML_ERROR_INVALID_ARGUMENT, w')
      \<and> mem w' = mem (ready caller_mem))
   \<and> (\<exists>w'. nvmlDeviceGetHandleByIndex_v2 quiet 2 (Cell 3) (boot caller_mem)
              = Inr (NVML_ERROR_UNINITIALIZED, w')
      \<and> mem w' = mem (boot caller_mem))"
proof -
  have on: "g_initialized (ready caller_mem) \<noteq> 0" by simp
  have off: "g_initialized (boot caller_mem) = 0" by (simp add: boot_def)
  have inside: "unat (2 :: 32 word) < FAKE_GPU_COUNT" by (simp add: FAKE_GPU_COUNT_def)
  have outside: "FAKE_GPU_COUNT \<le> unat (4 :: 32 word)" by (simp add: FAKE_GPU_COUNT_def)
  have cell: "mem (ready caller_mem) 3 = Some (DevV NULL)" by (simp add: caller_mem_def)
  have rec: "handle (g_fake_gpus (ready caller_mem) (unat (2 :: 32 word))) = GpuSlot 2"
    by (simp add: ready_gpu FAKE_GPU_COUNT_def)
  have neg: "- (2 ^ 31) \<le> (- 1 :: int) \<and> (- 1 :: int) < 0" by simp
  show ?thesis
    using on off inside outside cell rec neg
      get_handle_by_index [where w = "ready caller_mem" and idx = 2 and a = 3 and ?d0.0 = NULL
        and e = quiet and dev = "Cell 3" and k = "- 1"]
      get_handle_by_index [where w = "ready caller_mem" and idx = 4 and a = 3 and ?d0.0 = NULL
        and e = quiet and dev = "Cell 3" and k = "- 1"]
      get_handle_by_index [where w = "boot caller_mem" and idx = 2 and a = 3 and ?d0.0 = NULL
        and e = quiet and dev = "Cell 3" and k = "- 1"]
    by simp
qed

text \<open>
  Claim C6. After a successful \<open>nvmlInit_v2\<close>, for every index below the device
  count, \<open>nvmlDeviceGetHandleByIndex_v2\<close> succeeds and \<open>nvmlDeviceGetMinorNumber\<close>
  on the handle it wrote succeeds and writes exactly that index.
\<close>

theorem index_handle_roundtrip:
  assumes init: "nvmlInit_v2 e0 w0 = Inr (NVML_SUCCESS, w1)"
    and range: "unat idx < FAKE_GPU_COUNT"
    and dev: "mem w1 a = Some (DevV d0)"
    and out: "mem w1 b = Some (UIntV u0)"
  shows "\<exists>w2 h w3.
     nvmlDeviceGetHandleByIndex_v2 e1 idx (Cell a) w1 = Inr (NVML_SUCCESS, w2)
     \<and> mem w2 a = Some (DevV h)
     \<and> nvmlDeviceGetMinorNumber e2 h (Cell b) w2 = Inr (NVML_SUCCESS, w3)
     \<and> mem w3 b = Some (UIntV idx)"
proof -
  from init have flag: "g_initialized w1 = 1"
    and gpus: "g_fake_gpus w1 = init_loop 0 (g_fake_gpus w0)"
    by (auto dest: init_success)
  from range gpus have rec: "g_fake_gpus w1 (unat idx) = init_gpu (unat idx) (g_fake_gpus w0 (unat idx))"
    by (simp add: init_loop_0)
  define w2 where "w2 = LOG e1 ''nvmlDeviceGetHandleByIndex_v2'' ''exit''
    ((LOG e1 ''nvmlDeviceGetHandleByIndex_v2'' ''enter'' w1)
       \<lparr>mem := (mem w1)(a \<mapsto> DevV (GpuSlot (unat idx)))\<rparr>)"
  have step1: "nvmlDeviceGetHandleByIndex_v2 e1 idx (Cell a) w1 = Inr (NVML_SUCCESS, w2)"
    using flag range dev rec
    by (simp add: nvmlDeviceGetHandleByIndex_v2_def count_le_iff store_Cell Let_def w2_def)
  have mem2: "mem w2 = (mem w1)(a \<mapsto> DevV (GpuSlot (unat idx)))"
    and flag2: "g_initialized w2 = 1"
    and gpus2: "g_fake_gpus w2 = g_fake_gpus w1"
    using flag by (simp_all add: w2_def)
  from dev out have "a \<noteq> b" by auto
  with out mem2 have out2: "mem w2 b = Some (UIntV u0)" by simp
  have "\<exists>w3. nvmlDeviceGetMinorNumber e2 (GpuSlot (unat idx)) (Cell b) w2 = Inr (NVML_SUCCESS, w3)
     \<and> mem w3 b = Some (UIntV idx)"
    using flag2 gpus2 rec range out2
    by (simp add: nvmlDeviceGetMinorNumber_def gpu_at_slot store_Cell Let_def)
  with step1 mem2 show ?thesis
    by auto
qed

text \<open>
  The round trip for index 3, after the first initialisation of the process.
\<close>

theorem index_handle_roundtrip_witness:
  "\<exists>w2 h w3.
     nvmlDeviceGetHandleByIndex_v2 quiet 3 (Cell 3) (ready caller_mem) = Inr (NVML_SUCCESS, w2)
     \<and> mem w2 3 = Some (DevV h)
     \<and> nvmlDeviceGetMinorNumber tracing h (Cell 2) w2 = Inr (NVML_SUCCESS, w3)
     \<and> mem w3 2 = Some (UIntV 3)"
proof -
  have range: "unat (3 :: 32 word) < FAKE_GPU_COUNT" by (simp add: FAKE_GPU_COUNT_def)
  have dev: "mem (ready caller_mem) 3 = Some (DevV NULL)" by (simp add: caller_mem_def)
  have out: "mem (ready caller_mem) 2 = Some (UIntV 0)" by (simp add: caller_mem_def)
  show ?thesis
    using index_handle_roundtrip [OF init_boot range dev out, of quiet tracing] .
qed

subsection \<open>The initialisation check\<close>

text \<open>
  Claim C7. The flag is false at the start and after every \<open>nvmlShutdown\<close>.
  Whenever it is false, every query operation returns \<open>NVML_ERROR_UNINITIALIZED\<close>
  for all arguments and leaves the memory, the registry and the flag as they were.
\<close>

theorem uninitialized_queries:
  assumes flag: "g_initialized w = 0" and query: "is_query c"
  shows "g_initialized (boot m) = 0
    \<and> (\<forall>e0 w0 r w1. nvmlShutdown e0 w0 = Inr (r, w1) \<longrightarrow> g_initialized w1 = 0)
    \<and> (\<exists>w'. exec e c w = Inr (Code NVML_ERROR_UNINITIALIZED, w')
          \<and> mem w' = mem w \<and> g_fake_gpus w' = g_fake_gpus w \<and> g_initialized w' = 0)"
proof -
  have start: "g_initialized (boot m) = 0"
    by (simp add: boot_def)
  have shut: "\<forall>e0 w0 r w1. nvmlShutdown e0 w0 = Inr (r, w1) \<longrightarrow> g_initialized w1 = 0"
    by (auto simp: nvmlShutdown_def Let_def split: if_splits)
  have "\<exists>w'. exec e c w = Inr (Code NVML_ERROR_UNINITIALIZED, w')
          \<and> mem w' = mem w \<and> g_fake_gpus w' = g_fake_gpus w \<and> g_initialized w' = 0"
    using flag query
    by (cases c)
      (simp_all add: as_code_def Let_def nvmlSystemGetDriverVersion_def
        nvmlSystemGetCudaDriverVersion_def nvmlDeviceGetCount_v2_def
        nvmlDeviceGetHandleByIndex_v2_def nvmlDeviceGetName_def nvmlDeviceGetUUID_def
        nvmlDeviceGetPciInfo_def nvmlDeviceGetCudaComputeCapability_def nvmlDeviceGetBrand_def
        nvmlDeviceGetMinorNumber_def nvmlDeviceGetMigCapability_def nvmlDeviceGetMigMode_def)
  with start shut show ?thesis
    by blast
qed

text \<open>
  \<open>nvmlDeviceGetCount_v2\<close> at the start of the process, with the trace switched on.
\<close>

theorem uninitialized_queries_witness:
  "g_initialized (boot caller_mem) = 0
   \<and> is_query (DeviceGetCount (Cell 2))
   \<and> (\<exists>w'. exec tracing (DeviceGetCount (Cell 2)) (boot caller_mem)
              = Inr (Code NVML_ERROR_UNINITIALIZED, w')
          \<and> mem w' = mem (boot caller_mem)
          \<and> g_fake_gpus w' = g_fake_gpus (boot caller_mem)
          \<and> g_initialized w' = 0)"
proof -
  have flag: "g_initialized (boot caller_mem) = 0" by (simp add: boot_def)
  have query: "is_query (DeviceGetCount (Cell 2))" by simp
  show ?thesis
    using flag query uninitialized_queries [OF flag query, of caller_mem tracing]
    by blast
qed

subsection \<open>Output pointers\<close>

text \<open>
  Claim C8. With the flag set and a null output pointer (either one, or both),
  \<open>nvmlDeviceGetCudaComputeCapability\<close>, \<open>nvmlDeviceGetMigCapability\<close> and
  \<open>nvmlDeviceGetMigMode\<close> return \<open>NVML_ERROR_INVALID_ARGUMENT\<close> and write
  nothing to memory, so nothing to the other output location.
\<close>

theorem null_output_rejected:
  assumes flag: "g_initialized w \<noteq> 0" and null: "p = NULL \<or> q = NULL"
  shows "(\<exists>w'. nvmlDeviceGetCudaComputeCapability e dev p q w
                 = Inr (NVML_ERROR_INVALID_ARGUMENT, w') \<and> mem w' = mem w)
    \<and> (\<exists>w'. nvmlDeviceGetMigCapability e dev p q w
                 = Inr (NVML_ERROR_INVALID_ARGUMENT, w') \<and> mem w' = mem w)
    \<and> (\<exists>w'. nvmlDeviceGetMigMode e dev p q w
                 = Inr (NVML_ERROR_INVALID_ARGUMENT, w') \<and> mem w' = mem w)"
  using flag null
  by (simp add: nvmlDeviceGetCudaComputeCapability_def nvmlDeviceGetMigCapability_def
      nvmlDeviceGetMigMode_def Let_def)

text \<open>
  A null minor-output location with a valid major-output location.
\<close>

theorem null_output_rejected_witness:
  "g_initialized (ready caller_mem) \<noteq> 0
   \<and> (\<exists>w'. nvmlDeviceGetCudaComputeCapability quiet (GpuSlot 0) (Cell 4) NULL (ready caller_mem)
              = Inr (NVML_ERROR_INVALID_ARGUMENT, w')
          \<and> mem w' = mem (ready caller_mem))
   \<and> (\<exists>w'. nvmlDeviceGetMigCapability quiet (GpuSlot 0) (Cell 4) NULL (ready caller_mem)
              = Inr (NVML_ERROR_INVALID_ARGUMENT, w')
          \<and> mem w' = mem (ready caller_mem))
   \<and> (\<exists>w'. nvmlDeviceGetMigMode quiet (GpuSlot 0) (Cell 4) NULL (ready caller_mem)
              = Inr (NVML_ERROR_INVALID_ARGUMENT, w')
          \<and> mem w' = mem (ready caller_mem))"
proof -
  have flag: "g_initialized (ready caller_mem) \<noteq> 0" by simp
  have null: "Cell 4 = NULL \<or> (NULL :: ptr) = NULL" by simp
  show ?thesis
    using flag null_output_rejected [OF flag null, of quiet "GpuSlot 0"]
    by blast
qed

text \<open>
  Claim C10. With the flag set, \<open>nvmlDeviceGetCount_v2\<close>,
  \<open>nvmlSystemGetCudaDriverVersion\<close>, \<open>nvmlDeviceGetBrand\<close> and
  \<open>nvmlDeviceGetMinorNumber\<close> never return \<open>NVML_ERROR_INVALID_ARGUMENT\<close>:
  they write through the output pointer without a check, so a null output pointer is
  dereferenced, where the three functions of claim C8 return the error code.
\<close>

theorem unchecked_output_pointers:
  assumes flag: "g_initialized w \<noteq> 0" and slot: "i < FAKE_GPU_COUNT"
    and uint: "mem w a = Some (UIntV u0)" and sint: "mem w b = Some (IntV s0)"
  shows "nvmlDeviceGetCount_v2 e NULL w = Inl NullDereference
    \<and> nvmlSystemGetCudaDriverVersion e NULL w = Inl NullDereference
    \<and> nvmlDeviceGetBrand e dev NULL w = Inl NullDereference
    \<and> nvmlDeviceGetMinorNumber e (GpuSlot i) NULL w = Inl NullDereference
    \<and> nvmlDeviceGetCount_v2 e p w \<noteq> Inr (NVML_ERROR_INVALID_ARGUMENT, w')
    \<and> nvmlSystemGetCudaDriverVersion e p w \<noteq> Inr (NVML_ERROR_INVALID_ARGUMENT, w')
    \<and> nvmlDeviceGetBrand e dev p w \<noteq> Inr (NVML_ERROR_INVALID_ARGUMENT, w')
    \<and> nvmlDeviceGetMinorNumber e dev p w \<noteq> Inr (NVML_ERROR_INVALID_ARGUMENT, w')
    \<and> (\<exists>w1. nvmlDeviceGetCount_v2 e (Cell a) w = Inr (NVML_SUCCESS, w1)
          \<and> mem w1 a = Some (UIntV (of_nat FAKE_GPU_COUNT)))
    \<and> (\<exists>w1. nvmlSystemGetCudaDriverVersion e (Cell b) w = Inr (NVML_SUCCESS, w1)
          \<and> mem w1 b = Some (IntV FAKE_CUDA_VERSION))
    \<and> (\<exists>w1. nvmlDeviceGetBrand e dev (Cell a) w = Inr (NVML_SUCCESS, w1)
          \<and> mem w1 a = Some (UIntV NVML_BRAND_TESLA))
    \<and> (\<exists>w1. nvmlDeviceGetMinorNumber e (GpuSlot i) (Cell a) w = Inr (NVML_SUCCESS, w1)
          \<and> mem w1 a = Some (UIntV (word_of_int (index (g_fake_gpus w i)))))
    \<and> (\<exists>w1. nvmlDeviceGetCudaComputeCapability e dev NULL q w
                 = Inr (NVML_ERROR_INVALID_ARGUMENT, w1))
    \<and> (\<exists>w1. nvmlDeviceGetMigCapability e dev NULL q w = Inr (NVML_ERROR_INVALID_ARGUMENT, w1))
    \<and> (\<exists>w1. nvmlDeviceGetMigMode e dev NULL q w = Inr (NVML_ERROR_INVALID_ARGUMENT, w1))"
proof -
  have null: "nvmlDeviceGetCount_v2 e NULL w = Inl NullDereference"
    "nvmlSystemGetCudaDriverVersion e NULL w = Inl NullDereference"
    "nvmlDeviceGetBrand e dev NULL w = Inl NullDereference"
    "nvmlDeviceGetMinorNumber e (GpuSlot i) NULL w = Inl NullDereference"
    using flag slot
    by (simp_all add: nvmlDeviceGetCount_v2_def nvmlSystemGetCudaDriverVersion_def
        nvmlDeviceGetBrand_def nvmlDeviceGetMinorNumber_def gpu_at_slot store_NULL Let_def)
  have never: "nvmlDeviceGetCount_v2 e p w \<noteq> Inr (NVML_ERROR_INVALID_ARGUMENT, w')"
    "nvmlSystemGetCudaDriverVersion e p w \<noteq> Inr (NVML_ERROR_INVALID_ARGUMENT, w')"
    "nvmlDeviceGetBrand e dev p w \<noteq> Inr (NVML_ERROR_INVALID_ARGUMENT, w')"
    "nvmlDeviceGetMinorNumber e dev p w \<noteq> Inr (NVML_ERROR_INVALID_ARGUMENT, w')"
    using flag
    by (simp_all add: nvmlDeviceGetCount_v2_def nvmlSystemGetCudaDriverVersion_def
        nvmlDeviceGetBrand_def nvmlDeviceGetMinorNumber_def Let_def nvml_codes
        split: sum.splits)
  have writes: "\<exists>w1. nvmlDeviceGetCount_v2 e (Cell a) w = Inr (NVML_SUCCESS, w1)
          \<and> mem w1 a = Some (UIntV (of_nat FAKE_GPU_COUNT))"
    "\<exists>w1. nvmlSystemGetCudaDriverVersion e (Cell b) w = Inr (NVML_SUCCESS, w1)
          \<and> mem w1 b = Some (IntV FAKE_CUDA_VERSION)"
    "\<exists>w1. nvmlDeviceGetBrand e dev (Cell a) w = Inr (NVML_SUCCESS, w1)
          \<and> mem w1 a = Some (UIntV NVML_BRAND_TESLA)"
    "\<exists>w1. nvmlDeviceGetMinorNumber e (GpuSlot i) (Cell a) w = Inr (NVML_SUCCESS, w1)
          \<and> mem w1 a = Some (UIntV (word_of_int (index (g_fake_gpus w i))))"
    using flag slot uint sint
    by (simp_all add: nvmlDeviceGetCount_v2_def nvmlSystemGetCudaDriverVersion_def
        nvmlDeviceGetBrand_def nvmlDeviceGetMinorNumber_def gpu_at_slot store_Cell Let_def)
  have checked: "\<exists>w1. nvmlDeviceGetCudaComputeCapability e dev NULL q w
                 = Inr (NVML_ERROR_INVALID_ARGUMENT, w1)"
    "\<exists>w1. nvmlDeviceGetMigCapability e dev NULL q w = Inr (NVML_ERROR_INVALID_ARGUMENT, w1)"
    "\<exists>w1. nvmlDeviceGetMigMode e dev NULL q w = Inr (NVML_ERROR_INVALID_ARGUMENT, w1)"
    using flag
    by (simp_all add: nvmlDeviceGetCudaComputeCapability_def nvmlDeviceGetMigCapability_def
        nvmlDeviceGetMigMode_def Let_def)
  from null never writes checked show ?thesis
    by blast
qed

text \<open>
  Record 1 of an initialised registry, with an unsigned and a signed output location.
\<close>

theorem unchecked_output_pointers_witness:
  "g_initialized (ready caller_mem) \<noteq> 0
   \<and> nvmlDeviceGetCount_v2 quiet NULL (ready caller_mem) = Inl NullDereference
   \<and> nvmlSystemGetCudaDriverVersion quiet NULL (ready caller_mem) = Inl NullDereference
   \<and> nvmlDeviceGetBrand quiet (GpuSlot 1) NULL (ready caller_mem) = Inl NullDereference
   \<and> nvmlDeviceGetMinorNumber quiet (GpuSlot 1) NULL (ready caller_mem) = Inl NullDereference
   \<and> (\<exists>w1. nvmlDeviceGetCount_v2 quiet (Cell 2) (ready caller_mem) = Inr (NVML_SUCCESS, w1)
          \<and> mem w1 2 = Some (UIntV (of_nat FAKE_GPU_COUNT)))
   \<and> (\<exists>w1. nvmlDeviceGetCudaComputeCapability quiet (GpuSlot 1) NULL (Cell 4) (ready caller_mem)
                 = Inr (NVML_ERROR_INVALID_ARGUMENT, w1))"
proof -
  have flag: "g_initialized (ready caller_mem) \<noteq> 0" by simp
  have slot: "(1::nat) < FAKE_GPU_COUNT" by (simp add: FAKE_GPU_COUNT_def)
  have uint: "mem (ready caller_mem) 2 = Some (UIntV 0)" by (simp add: caller_mem_def)
  have sint: "mem (ready caller_mem) 4 = Some (IntV 0)" by (simp add: caller_mem_def)
  show ?thesis
    using flag
      unchecked_output_pointers [OF flag slot uint sint, of quiet "GpuSlot 1" NULL
        "ready caller_mem" "Cell 4"]
    by blast
qed

subsection \<open>Tracing\<close>

text \<open>
  No memory access looks at the standard error stream, so every call computes what it
  would compute without tracing on a state whose stream is empty.
\<close>

lemma store_stderr:
  "store p v (w\<lparr>stderr := s\<rparr>) =
     (case store p v w of Inl x \<Rightarrow> Inl x | Inr w' \<Rightarrow> Inr (w'\<lparr>stderr := s\<rparr>))"
  by (simp add: store_def split: ptr.splits option.splits)

lemma strncpy_to_stderr:
  "strncpy_to p src n (w\<lparr>stderr := s\<rparr>) =
     (case strncpy_to p src n w of Inl x \<Rightarrow> Inl x | Inr w' \<Rightarrow> Inr (w'\<lparr>stderr := s\<rparr>))"
  by (simp add: strncpy_to_def split: ptr.splits option.splits val.splits)

lemma gpu_at_stderr: "gpu_at p (w\<lparr>stderr := s\<rparr>) = gpu_at p w"
  by (simp add: gpu_at_def split: ptr.splits)

lemma exec_silent:
  "observable (exec e c w) = observable (exec quiet c (w\<lparr>stderr := []\<rparr>))"
proof (cases c)
  case Init
  then show ?thesis
    by (simp add: as_code_def observable_def nvmlInit_v2_def Let_def)
next
  case Shutdown
  then show ?thesis
    by (simp add: as_code_def observable_def nvmlShutdown_def Let_def)
next
  case (ErrorString r)
  then show ?thesis
    by (simp add: observable_def nvmlErrorString_def Let_def)
next
  case (SystemGetDriverVersion p n)
  then show ?thesis
    by (simp add: as_code_def observable_def nvmlSystemGetDriverVersion_def Let_def
        strncpy_to_LOG strncpy_to_stderr split: sum.splits)
next
  case (SystemGetCudaDriverVersion p)
  then show ?thesis
    by (simp add: as_code_def observable_def nvmlSystemGetCudaDriverVersion_def Let_def
        store_LOG store_stderr split: sum.splits)
next
  case (DeviceGetCount p)
  then show ?thesis
    by (simp add: as_code_def observable_def nvmlDeviceGetCount_v2_def Let_def
        store_LOG store_stderr split: sum.splits)
next
  case (DeviceGetHandleByIndex i p)
  then show ?thesis
    by (simp add: as_code_def observable_def nvmlDeviceGetHandleByIndex_v2_def Let_def
        store_LOG store_stderr split: sum.splits)
next
  case (DeviceGetName d p n)
  then show ?thesis
    by (simp add: as_code_def observable_def nvmlDeviceGetName_def Let_def
        strncpy_to_LOG strncpy_to_stderr gpu_at_LOG gpu_at_stderr split: sum.splits)
next
  case (DeviceGetUUID d p n)
  then show ?thesis
    by (simp add: as_code_def observable_def nvmlDeviceGetUUID_def Let_def
        strncpy_to_LOG strncpy_to_stderr gpu_at_LOG gpu_at_stderr split: sum.splits)
next
  case (DeviceGetPciInfo d p)
  then show ?thesis
    by (simp add: as_code_def observable_def nvmlDeviceGetPciInfo_def Let_def
        store_LOG store_stderr gpu_at_LOG gpu_at_stderr split: sum.splits)
next
  case (DeviceGetCudaComputeCapability d p q)
  then show ?thesis
    by (simp add: as_code_def observable_def nvmlDeviceGetCudaComputeCapability_def Let_def
        store_LOG store_stderr split: sum.splits)
next
  case (DeviceGetBrand d p)
  then show ?thesis
    by (simp add: as_code_def observable_def nvmlDeviceGetBrand_def Let_def
        store_LOG store_stderr split: sum.splits)
next
  case (DeviceGetMinorNumber d p)
  then show ?thesis
    by (simp add: as_code_def observable_def nvmlDeviceGetMinorNumber_def Let_def
        store_LOG store_stderr gpu_at_LOG gpu_at_stderr split: sum.splits)
next
  case (DeviceGetMigCapability d p q)
  then show ?thesis
    by (simp add: as_code_def observable_def nvmlDeviceGetMigCapability_def Let_def
        store_LOG store_stderr split: sum.splits)
next
  case (DeviceGetMigMode d p q)
  then show ?thesis
    by (simp add: as_code_def observable_def nvmlDeviceGetMigMode_def Let_def
        store_LOG store_stderr split: sum.splits)
qed

text \<open>
  Claim C9. Take any call, any two environments (so \<open>FAKE_NVML_LOG\<close> set in one and
  unset in the other) and any two states that agree on the flag, the registry and the
  memory, whatever traces earlier calls have left on their standard error streams. The two
  runs end in the same fault, or in the same returned value with the same flag, registry
  and memory: the states agree again, so the same holds for every later call.
\<close>

theorem trace_noninterference:
  assumes flag: "g_initialized w1 = g_initialized w2"
    and gpus: "g_fake_gpus w1 = g_fake_gpus w2"
    and mems: "mem w1 = mem w2"
  shows "observable (exec e1 c w1) = observable (exec e2 c w2)"
proof -
  from flag gpus mems have same: "w1\<lparr>stderr := []\<rparr> = w2\<lparr>stderr := []\<rparr>"
    by (cases w1, cases w2) simp
  have "observable (exec e1 c w1) = observable (exec quiet c (w1\<lparr>stderr := []\<rparr>))"
    by (rule exec_silent)
  also have "\<dots> = observable (exec quiet c (w2\<lparr>stderr := []\<rparr>))"
    by (simp only: same)
  also have "\<dots> = observable (exec e2 c w2)"
    by (rule exec_silent [symmetric])
  finally show ?thesis .
qed

text \<open>
  A traced and an untraced run of \<open>nvmlInit_v2\<close> from the start of the process leave
  different streams; \<open>nvmlDeviceGetCount_v2\<close> then returns success and writes 4 in
  both.
\<close>

theorem trace_noninterference_witness:
  "\<exists>w1 w2. nvmlInit_v2 tracing (boot caller_mem) = Inr (NVML_SUCCESS, w1)
     \<and> nvmlInit_v2 quiet (boot caller_mem) = Inr (NVML_SUCCESS, w2)
     \<and> stderr w1 \<noteq> stderr w2
     \<and> observable (exec tracing (DeviceGetCount (Cell 2)) w1)
       = observable (exec quiet (DeviceGetCount (Cell 2)) w2)
     \<and> observable (exec quiet (DeviceGetCount (Cell 2)) w2)
       = Inr (Code NVML_SUCCESS, 1, g_fake_gpus w2, caller_mem(2 \<mapsto> UIntV 4))"
proof -
  define w1 where "w1 = LOG tracing ''nvmlInit_v2'' ''exit''
    ((LOG tracing ''nvmlInit_v2'' ''enter'' (boot caller_mem))
       \<lparr>g_fake_gpus := init_loop 0 (\<lambda>i. zero_gpu), g_initialized := 1\<rparr>)"
  have traced: "nvmlInit_v2 tracing (boot caller_mem) = Inr (NVML_SUCCESS, w1)"
    by (simp add: nvmlInit_v2_def boot_def Let_def w1_def LOG_def)
  have silent: "nvmlInit_v2 quiet (boot caller_mem) = Inr (NVML_SUCCESS, ready caller_mem)"
    by (rule init_boot)
  have differ: "stderr w1 \<noteq> stderr (ready caller_mem)"
    by (simp add: w1_def LOG_def tracing_def boot_def ready_def)
  have flag: "g_initialized w1 = g_initialized (ready caller_mem)"
    by (simp add: w1_def)
  have gpus: "g_fake_gpus w1 = g_fake_gpus (ready caller_mem)"
    by (simp add: w1_def ready_def)
  have mems: "mem w1 = mem (ready caller_mem)"
    by (simp add: w1_def boot_def)
  have cell: "mem (ready caller_mem) 2 = Some (UIntV 0)"
    by (simp add: caller_mem_def)
  have count: "observable (exec quiet (DeviceGetCount (Cell 2)) (ready caller_mem))
       = Inr (Code NVML_SUCCESS, 1, g_fake_gpus (ready caller_mem), caller_mem(2 \<mapsto> UIntV 4))"
    using cell
    by (simp add: observable_def as_code_def nvmlDeviceGetCount_v2_def store_Cell
        FAKE_GPU_COUNT_def Let_def del: ready_mem) (simp add: ready_def)
  from traced silent differ count
    trace_noninterference [OF flag gpus mems, of tracing "DeviceGetCount (Cell 2)" quiet]
  show ?thesis
    by blast
qed

end
